theory Spec2Isabelle
  imports Complex_Main "HOL-Library.Sublist"
begin

section \<open>The image handler of the CV editor (script/imageHandler.js)\<close>

subsection \<open>JavaScript values\<close>

text \<open>
  The two module variables and the fields of a saved object hold a string, \<open>null\<close> or
  \<open>undefined\<close> (a missing key reads as \<open>undefined\<close>).  \<open>truthy\<close> is JavaScript's
  boolean coercion, the test behind \<open>if (v)\<close>, \<open>!v\<close>, \<open>!!v\<close> and \<open>v || w\<close>: of these
  values only a non-empty string is truthy.
\<close>

datatype jsval = Undefined | Null | Str string

fun truthy :: "jsval \<Rightarrow> bool" where
  "truthy Undefined = False"
| "truthy Null = False"
| "truthy (Str s) = (s \<noteq> [])"

definition js_or :: "jsval \<Rightarrow> jsval \<Rightarrow> jsval" where
  \<comment> \<open>\<open>a || b\<close>\<close>
  "js_or a b = (if truthy a then a else b)"

fun ToString :: "jsval \<Rightarrow> string" where
  "ToString Undefined = ''undefined''"
| "ToString Null = ''null''"
| "ToString (Str s) = s"

definition absent :: "jsval \<Rightarrow> bool" where
  \<comment> \<open>a field that holds no value: \<open>null\<close> or \<open>undefined\<close>\<close>
  "absent v = (v = Undefined \<or> v = Null)"

type_synonym js_object = "string \<rightharpoonup> jsval"

definition get_prop :: "js_object \<Rightarrow> string \<Rightarrow> jsval" where
  \<comment> \<open>\<open>obj.key\<close>: a missing key reads as \<open>undefined\<close>\<close>
  "get_prop obj k = (case obj k of None \<Rightarrow> Undefined | Some v \<Rightarrow> v)"

subsection \<open>The page, the hooks and the module state\<close>

text \<open>
  An element of the page carries what the module reads and writes: its class list (an
  ordered set of tokens), the \<open>src\<close> attribute, the text content and the value of an
  input.  The page is a map from element ids to elements, so \<open>document.getElementById\<close>
  is a lookup that may find nothing.
\<close>

record element =
  classList :: "string list"
  src :: string
  textContent :: string
  input_value :: string

definition classList_add :: "string \<Rightarrow> element \<Rightarrow> element" where
  "classList_add t e = (if t \<in> set (classList e) then e else e\<lparr>classList := classList e @ [t]\<rparr>)"

definition classList_remove :: "string \<Rightarrow> element \<Rightarrow> element" where
  "classList_remove t e = e\<lparr>classList := removeAll t (classList e)\<rparr>"

text \<open>
  The state is the two module variables together with everything the module acts on:
  the page, whether a global function \<open>AutoUpdate\<close> exists and how often it has been
  called, the messages shown with \<open>alert\<close> and the lines written with \<open>console.error\<close>
  (the fixed message and the value caught).
\<close>

record state =
  profileImageData :: jsval
  profileImageType :: jsval
  document :: "string \<rightharpoonup> element"
  AutoUpdate_is_function :: bool
  AutoUpdate_calls :: nat
  alerts :: "string list"
  console_errors :: "(string \<times> string) list"

definition init_state :: "(string \<rightharpoonup> element) \<Rightarrow> bool \<Rightarrow> state" where
  \<comment> \<open>\<open>let profileImageData = null; let profileImageType = null;\<close>\<close>
  "init_state page au =
     \<lparr>profileImageData = Null, profileImageType = Null, document = page,
      AutoUpdate_is_function = au, AutoUpdate_calls = 0, alerts = [], console_errors = []\<rparr>"

definition alert :: "string \<Rightarrow> state \<Rightarrow> state" where
  "alert msg s = s\<lparr>alerts := alerts s @ [msg]\<rparr>"

definition call_AutoUpdate :: "state \<Rightarrow> state" where
  \<comment> \<open>\<open>if (typeof AutoUpdate === 'function') { AutoUpdate(); }\<close>\<close>
  "call_AutoUpdate s =
     (if AutoUpdate_is_function s then s\<lparr>AutoUpdate_calls := Suc (AutoUpdate_calls s)\<rparr> else s)"

definition update_element :: "string \<Rightarrow> (element \<Rightarrow> element) \<Rightarrow> state \<Rightarrow> state" where
  \<comment> \<open>\<open>const el = document.getElementById(id); if (el) \<dots>\<close>\<close>
  "update_element ident f s =
     (case document s ident of
        None \<Rightarrow> s
      | Some el \<Rightarrow> s\<lparr>document := (document s)(ident \<mapsto> f el)\<rparr>)"

subsection \<open>Upload\<close>

record js_file =
  file_name :: string
  file_type :: string
  file_size :: nat

text \<open>
  \<open>handleImageUpload\<close> gets the files of the change event.  It returns the state and,
  when both checks pass, the file handed to \<open>reader.readAsDataURL\<close>; the reader calls
  \<open>reader_onload\<close> later with the data URI it produced, if it produces one.
\<close>

definition showImagePreview :: "string \<Rightarrow> state \<Rightarrow> state" where
  "showImagePreview fileName s =
     (case (document s ''image-preview'', document s ''preview-img'',
            document s ''image-name'', document s ''remove-image'') of
        (Some preview, Some previewImg, Some imageName, Some removeBtn) \<Rightarrow>
          s\<lparr>document := (document s)
               (''preview-img'' \<mapsto> previewImg\<lparr>src := ToString (profileImageData s)\<rparr>,
                ''image-name'' \<mapsto> imageName\<lparr>textContent := fileName\<rparr>,
                ''image-preview'' \<mapsto> classList_remove ''hidden'' preview,
                ''remove-image'' \<mapsto> classList_remove ''hidden'' removeBtn)\<rparr>
      | _ \<Rightarrow> s)"

definition handleImageUpload :: "js_file list \<Rightarrow> state \<Rightarrow> state \<times> js_file option" where
  "handleImageUpload files s =
     (case files of
        [] \<Rightarrow> (s, None)
      | f # _ \<Rightarrow>
          if \<not> prefix ''image/'' (file_type f)
          then (alert ''Please select a valid image file.'' s, None)
          else if file_size f > 5 * 1024 * 1024
          then (alert ''Image size must be less than 5MB.'' s, None)
          else (s, Some f))"

definition reader_onload :: "js_file \<Rightarrow> string \<Rightarrow> state \<Rightarrow> state" where
  "reader_onload f result s =
     call_AutoUpdate
       (showImagePreview (file_name f)
          (s\<lparr>profileImageData := Str result, profileImageType := Str (file_type f)\<rparr>))"

subsection \<open>Removal\<close>

definition removeProfileImage :: "state \<Rightarrow> state" where
  "removeProfileImage s =
     call_AutoUpdate
       (update_element ''profile-image'' (\<lambda>fileInput. fileInput\<lparr>input_value := []\<rparr>)
          (update_element ''remove-image'' (classList_add ''hidden'')
             (update_element ''image-preview'' (classList_add ''hidden'')
                (s\<lparr>profileImageData := Null, profileImageType := Null\<rparr>))))"

subsection \<open>Embedding into the PDF\<close>

text \<open>
  The renderer is the jsPDF document.  Of it the module uses \<open>addImage\<close> alone, which
  may throw: \<open>addImage_throws\<close> gives the value thrown for a call, if any, and
  \<open>addImage_calls\<close> lists the calls the renderer has received.  Coordinates and sizes
  are JavaScript numbers, taken here as exact reals.
\<close>

record addImage_call =
  call_image :: jsval
  call_format :: jsval
  call_x :: real
  call_y :: real
  call_width :: real
  call_height :: real

record renderer =
  addImage_throws :: "addImage_call \<Rightarrow> string option"
  addImage_calls :: "addImage_call list"

definition addImage :: "addImage_call \<Rightarrow> renderer \<Rightarrow> string option \<times> renderer" where
  "addImage c doc = (addImage_throws doc c, doc\<lparr>addImage_calls := addImage_calls doc @ [c]\<rparr>)"

record pdf_result =
  res_width :: real
  res_height :: real
  res_hasImage :: bool

text \<open>
  The result of \<open>addImageToPDF\<close> is \<open>Inr\<close> of the object it returns, or \<open>Inl\<close> of a
  value thrown to its caller; with it come the renderer and the state afterwards.
\<close>

definition addImageToPDF ::
  "renderer \<Rightarrow> real \<Rightarrow> real \<Rightarrow> state \<Rightarrow> (string + pdf_result) \<times> renderer \<times> state" where
  "addImageToPDF doc marginLeft y s =
     (if truthy (profileImageData s) then
        (let imgSize = 70;
             imageWidth = imgSize;
             imageHeight = imgSize;
             (thrown, doc') =
               addImage \<lparr>call_image = profileImageData s,
                         call_format = js_or (profileImageType s) (Str ''JPEG''),
                         call_x = marginLeft, call_y = y - 28,
                         call_width = imageWidth, call_height = imageHeight\<rparr> doc;
             s' = (case thrown of
                     None \<Rightarrow> s
                   | Some error \<Rightarrow>
                       s\<lparr>console_errors :=
                           console_errors s @ [(''Error adding image to PDF:'', error)]\<rparr>)
         in (Inr \<lparr>res_width = imageWidth, res_height = imageHeight,
                  res_hasImage = truthy (profileImageData s)\<rparr>, doc', s'))
      else
        (Inr \<lparr>res_width = 0, res_height = 0, res_hasImage = truthy (profileImageData s)\<rparr>,
         doc, s))"

definition getImageBottomPosition :: "real \<Rightarrow> real \<Rightarrow> real \<Rightarrow> state \<Rightarrow> real" where
  "getImageBottomPosition headerStartY imageHeight padding s =
     (if \<not> truthy (profileImageData s) then 0
      else (headerStartY - 30) + imageHeight + padding)"

subsection \<open>Saving and loading\<close>

definition loadImageFromData :: "js_object \<Rightarrow> state \<Rightarrow> state" where
  "loadImageFromData obj s =
     (if truthy (get_prop obj ''profileImage'') then
        showImagePreview ''Loaded from save file''
          (s\<lparr>profileImageData := get_prop obj ''profileImage'',
             profileImageType := get_prop obj ''profileImageType''\<rparr>)
      else removeProfileImage s)"

definition getImageData :: "state \<Rightarrow> js_object" where
  "getImageData s =
     [''profileImage'' \<mapsto> profileImageData s, ''profileImageType'' \<mapsto> profileImageType s]"

subsection \<open>Accessors\<close>

definition hasImage :: "state \<Rightarrow> bool" where
  "hasImage s = truthy (profileImageData s)"

definition getImageDataString :: "state \<Rightarrow> jsval" where
  "getImageDataString s = profileImageData s"

definition getImageType :: "state \<Rightarrow> jsval" where
  "getImageType s = profileImageType s"

text \<open>
  \<open>initializeImageHandler\<close> registers \<open>handleImageUpload\<close> and \<open>removeProfileImage\<close> as
  listeners of the file input and the remove button, where they exist.  It reads and
  writes neither variable, and the handlers it registers are the functions above, so it
  has no definition of its own here.
\<close>

subsection \<open>The pairing of the two variables, and sample data\<close>

text \<open>
  \<open>pairing\<close> says that the image data and the media type are absent together.  The
  sample page has the five elements the module looks up; the sample state is the one
  after a 2 MiB PNG file has been read.  The renderers are a fresh one that never throws
  and a fresh one that always throws; \<open>saved_without_type\<close> is a saved object with an
  image and no media type.
\<close>

definition pairing :: "state \<Rightarrow> bool" where
  "pairing s = (absent (profileImageData s) \<longleftrightarrow> absent (profileImageType s))"

definition example_page :: "string \<rightharpoonup> element" where
  "example_page =
     [''profile-image'' \<mapsto> \<lparr>classList = [], src = [], textContent = [], input_value = ''me.png''\<rparr>,
      ''image-preview'' \<mapsto> \<lparr>classList = [''hidden''], src = [], textContent = [], input_value = []\<rparr>,
      ''preview-img'' \<mapsto> \<lparr>classList = [], src = [], textContent = [], input_value = []\<rparr>,
      ''image-name'' \<mapsto> \<lparr>classList = [], src = [], textContent = [], input_value = []\<rparr>,
      ''remove-image'' \<mapsto> \<lparr>classList = [''btn'', ''hidden''], src = [], textContent = [], input_value = []\<rparr>]"

definition example_file :: js_file where
  "example_file = \<lparr>file_name = ''me.png'', file_type = ''image/png'', file_size = 2 * 1024 * 1024\<rparr>"

definition example_data_uri :: string where
  "example_data_uri = ''data:image/png;base64,iVBORw0KGgo=''"

definition example_state :: state where
  "example_state = reader_onload example_file example_data_uri (init_state example_page True)"

definition quiet_renderer :: renderer where
  "quiet_renderer = \<lparr>addImage_throws = (\<lambda>c. None), addImage_calls = []\<rparr>"

definition failing_renderer :: renderer where
  "failing_renderer = \<lparr>addImage_throws = (\<lambda>c. Some ''Error: unsupported image''), addImage_calls = []\<rparr>"

definition saved_without_type :: js_object where
  "saved_without_type = [''profileImage'' \<mapsto> Str example_data_uri]"

section \<open>Properties\<close>

subsection \<open>What each step leaves alone\<close>

lemma call_AutoUpdate_fields [simp]:
  "profileImageData (call_AutoUpdate s) = profileImageData s"
  "profileImageType (call_AutoUpdate s) = profileImageType s"
  "document (call_AutoUpdate s) = document s"
  "alerts (call_AutoUpdate s) = alerts s"
  "console_errors (call_AutoUpdate s) = console_errors s"
  "AutoUpdate_is_function (call_AutoUpdate s) = AutoUpdate_is_function s"
  by (simp_all add: call_AutoUpdate_def)

lemma update_element_fields [simp]:
  "profileImageData (update_element i f s) = profileImageData s"
  "profileImageType (update_element i f s) = profileImageType s"
  "alerts (update_element i f s) = alerts s"
  "console_errors (update_element i f s) = console_errors s"
  "AutoUpdate_is_function (update_element i f s) = AutoUpdate_is_function s"
  "AutoUpdate_calls (update_element i f s) = AutoUpdate_calls s"
  by (simp_all add: update_element_def split: option.splits)

lemma update_element_document:
  "document (update_element i f s) = (case document s i of None \<Rightarrow> document s | Some el \<Rightarrow> (document s)(i \<mapsto> f el))"
  by (simp add: update_element_def split: option.splits)

lemma showImagePreview_fields [simp]:
  "profileImageData (showImagePreview n s) = profileImageData s"
  "profileImageType (showImagePreview n s) = profileImageType s"
  "alerts (showImagePreview n s) = alerts s"
  "console_errors (showImagePreview n s) = console_errors s"
  "AutoUpdate_is_function (showImagePreview n s) = AutoUpdate_is_function s"
  "AutoUpdate_calls (showImagePreview n s) = AutoUpdate_calls s"
  by (simp_all add: showImagePreview_def split: option.splits)

lemma removeProfileImage_fields [simp]:
  "profileImageData (removeProfileImage s) = Null"
  "profileImageType (removeProfileImage s) = Null"
  "alerts (removeProfileImage s) = alerts s"
  "console_errors (removeProfileImage s) = console_errors s"
  "AutoUpdate_is_function (removeProfileImage s) = AutoUpdate_is_function s"
  by (simp_all add: removeProfileImage_def)

lemma classList_add_idem: "classList_add t (classList_add t e) = classList_add t e"
  by (simp add: classList_add_def)

lemma classList_add_mem: "t \<in> set (classList (classList_add t e))"
  by (simp add: classList_add_def)

lemma removeProfileImage_document:
  "document (removeProfileImage s) k =
     (if k = ''image-preview'' then map_option (classList_add ''hidden'') (document s k)
      else if k = ''remove-image'' then map_option (classList_add ''hidden'') (document s k)
      else if k = ''profile-image'' then map_option (\<lambda>e. e\<lparr>input_value := []\<rparr>) (document s k)
      else document s k)"
  by (simp add: removeProfileImage_def update_element_document split: option.splits)

lemma removeProfileImage_document_idem:
  "document (removeProfileImage (removeProfileImage s)) = document (removeProfileImage s)"
  by (rule ext) (simp add: removeProfileImage_document option.map_comp comp_def classList_add_idem)

lemma example_state_fields:
  "profileImageData example_state = Str example_data_uri"
  "profileImageType example_state = Str ''image/png''"
  by (simp_all add: example_state_def reader_onload_def example_file_def)

lemma example_state_hasImage: "hasImage example_state"
  by (simp add: hasImage_def example_state_fields example_data_uri_def)

lemma example_state_logs:
  "alerts example_state = []"
  "console_errors example_state = []"
  by (simp_all add: example_state_def reader_onload_def init_state_def)

lemma example_state_document:
  "document example_state ''image-preview''
     = Some \<lparr>classList = [], src = [], textContent = [], input_value = []\<rparr>"
  "document example_state ''remove-image''
     = Some \<lparr>classList = [''btn''], src = [], textContent = [], input_value = []\<rparr>"
  "document example_state ''profile-image''
     = Some \<lparr>classList = [], src = [], textContent = [], input_value = ''me.png''\<rparr>"
  "document example_state ''preview-img''
     = Some \<lparr>classList = [], src = example_data_uri, textContent = [], input_value = []\<rparr>"
  "document example_state ''image-name''
     = Some \<lparr>classList = [], src = [], textContent = ''me.png'', input_value = []\<rparr>"
  by (simp_all add: example_state_def reader_onload_def showImagePreview_def init_state_def
        example_page_def example_file_def classList_remove_def)

lemma get_prop_getImageData [simp]:
  "get_prop (getImageData s) ''profileImage'' = profileImageData s"
  "get_prop (getImageData s) ''profileImageType'' = profileImageType s"
  by (simp_all add: get_prop_def getImageData_def)

subsection \<open>Upload: the two checks\<close>

text \<open>
  C3.  When the first selected file has a declared type that does not start with
  \<open>image/\<close>, or a size above 5 * 1024 * 1024 bytes, \<open>handleImageUpload\<close> shows one alert
  (the message of the check that failed, the type check first), hands no file to the
  reader, and leaves image data, media type and page as they were; an image set before
  is still set.
\<close>

theorem handleImageUpload_rejects:
  "\<not> prefix ''image/'' (file_type f) \<or> file_size f > 5 * 1024 * 1024 \<Longrightarrow>
   handleImageUpload (f # rest) s =
     (s\<lparr>alerts := alerts s @
          [if \<not> prefix ''image/'' (file_type f) then ''Please select a valid image file.''
           else ''Image size must be less than 5MB.'']\<rparr>, None) \<and>
   profileImageData (fst (handleImageUpload (f # rest) s)) = profileImageData s \<and>
   profileImageType (fst (handleImageUpload (f # rest) s)) = profileImageType s \<and>
   hasImage (fst (handleImageUpload (f # rest) s)) = hasImage s \<and>
   document (fst (handleImageUpload (f # rest) s)) = document s"
  by (auto simp add: handleImageUpload_def alert_def hasImage_def)

theorem handleImageUpload_rejects_witness:
  "\<not> prefix ''image/'' ''text/plain'' \<and> (10 * 1000 * 1000 :: nat) > 5 * 1024 * 1024 \<and>
   hasImage example_state \<and>
   alerts (fst (handleImageUpload
       [\<lparr>file_name = ''cv.txt'', file_type = ''text/plain'', file_size = 100\<rparr>] example_state))
     = [''Please select a valid image file.''] \<and>
   alerts (fst (handleImageUpload
       [\<lparr>file_name = ''big.png'', file_type = ''image/png'', file_size = 10 * 1000 * 1000\<rparr>]
       example_state))
     = [''Image size must be less than 5MB.''] \<and>
   profileImageData (fst (handleImageUpload
       [\<lparr>file_name = ''big.png'', file_type = ''image/png'', file_size = 10 * 1000 * 1000\<rparr>]
       example_state)) = Str example_data_uri \<and>
   profileImageType (fst (handleImageUpload
       [\<lparr>file_name = ''big.png'', file_type = ''image/png'', file_size = 10 * 1000 * 1000\<rparr>]
       example_state)) = Str ''image/png''"
  using handleImageUpload_rejects
          [of "\<lparr>file_name = ''cv.txt'', file_type = ''text/plain'', file_size = 100\<rparr>"
              "[]" example_state]
        handleImageUpload_rejects
          [of "\<lparr>file_name = ''big.png'', file_type = ''image/png'', file_size = 10 * 1000 * 1000\<rparr>"
              "[]" example_state]
        example_state_hasImage
  by (simp add: example_state_fields example_state_logs)

subsection \<open>Removal\<close>

text \<open>
  C8.  \<open>removeProfileImage\<close> twice gives the same image data, media type and page as
  \<open>removeProfileImage\<close> once: both variables are \<open>null\<close>, the preview and the remove
  button (where they exist) carry the class \<open>hidden\<close>, and the file input (where it
  exists) has the empty value.  The result does not depend on whether an image was set:
  two states with the same page end in the same cleared state.  (Each call invokes
  \<open>AutoUpdate\<close> when it is defined; the count of those calls is no part of the state
  compared here.)
\<close>

theorem removeProfileImage_idempotent:
  "profileImageData (removeProfileImage (removeProfileImage s)) = profileImageData (removeProfileImage s) \<and>
   profileImageType (removeProfileImage (removeProfileImage s)) = profileImageType (removeProfileImage s) \<and>
   document (removeProfileImage (removeProfileImage s)) = document (removeProfileImage s) \<and>
   profileImageData (removeProfileImage s) = Null \<and>
   profileImageType (removeProfileImage s) = Null \<and>
   (\<forall>e. document (removeProfileImage s) ''image-preview'' = Some e \<longrightarrow> ''hidden'' \<in> set (classList e)) \<and>
   (\<forall>e. document (removeProfileImage s) ''remove-image'' = Some e \<longrightarrow> ''hidden'' \<in> set (classList e)) \<and>
   (\<forall>e. document (removeProfileImage s) ''profile-image'' = Some e \<longrightarrow> input_value e = []) \<and>
   (document s' = document s \<longrightarrow>
      profileImageData (removeProfileImage s') = profileImageData (removeProfileImage s) \<and>
      profileImageType (removeProfileImage s') = profileImageType (removeProfileImage s) \<and>
      document (removeProfileImage s') = document (removeProfileImage s))"
  by (auto simp add: removeProfileImage_document_idem removeProfileImage_document
        classList_add_mem fun_eq_iff)

theorem removeProfileImage_idempotent_witness:
  "hasImage example_state \<and>
   \<not> hasImage (init_state (document example_state) False) \<and>
   document (init_state (document example_state) False) = document example_state \<and>
   document (removeProfileImage (removeProfileImage example_state))
     = document (removeProfileImage example_state) \<and>
   map_option classList (document (removeProfileImage example_state) ''image-preview'')
     = Some [''hidden''] \<and>
   map_option classList (document (removeProfileImage example_state) ''remove-image'')
     = Some [''btn'', ''hidden''] \<and>
   map_option input_value (document (removeProfileImage example_state) ''profile-image'')
     = Some [] \<and>
   document (removeProfileImage (init_state (document example_state) False))
     = document (removeProfileImage example_state) \<and>
   profileImageData (removeProfileImage (init_state (document example_state) False)) = Null"
  using removeProfileImage_idempotent
          [of example_state "init_state (document example_state) False"]
        example_state_hasImage
  by (simp add: removeProfileImage_document example_state_document classList_add_def
        hasImage_def init_state_def)

subsection \<open>Saving and loading\<close>

text \<open>
  C9.  Loading a saved object with no \<open>profileImage\<close> key is \<open>removeProfileImage\<close>: the
  whole state afterwards is the one \<open>removeProfileImage\<close> gives, so both variables are
  \<open>null\<close>, no image is set, the preview and the remove button are hidden and the file
  input is reset, also when an image was set before.
\<close>

theorem loadImageFromData_without_image:
  "obj ''profileImage'' = None \<Longrightarrow>
   loadImageFromData obj s = removeProfileImage s \<and>
   profileImageData (loadImageFromData obj s) = Null \<and>
   profileImageType (loadImageFromData obj s) = Null \<and>
   \<not> hasImage (loadImageFromData obj s) \<and>
   (\<forall>e. document (loadImageFromData obj s) ''image-preview'' = Some e
        \<longrightarrow> ''hidden'' \<in> set (classList e)) \<and>
   (\<forall>e. document (loadImageFromData obj s) ''remove-image'' = Some e
        \<longrightarrow> ''hidden'' \<in> set (classList e)) \<and>
   (\<forall>e. document (loadImageFromData obj s) ''profile-image'' = Some e
        \<longrightarrow> input_value e = [])"
  by (auto simp add: loadImageFromData_def get_prop_def hasImage_def
        removeProfileImage_document classList_add_mem)

theorem loadImageFromData_without_image_witness:
  "hasImage example_state \<and>
   loadImageFromData Map.empty example_state = removeProfileImage example_state \<and>
   \<not> hasImage (loadImageFromData Map.empty example_state) \<and>
   map_option classList (document (loadImageFromData Map.empty example_state) ''image-preview'')
     = Some [''hidden''] \<and>
   map_option classList (document (loadImageFromData Map.empty example_state) ''remove-image'')
     = Some [''btn'', ''hidden''] \<and>
   map_option input_value (document (loadImageFromData Map.empty example_state) ''profile-image'')
     = Some []"
  using loadImageFromData_without_image [of Map.empty example_state] example_state_hasImage
  by (simp add: removeProfileImage_document example_state_document classList_add_def hasImage_def)

text \<open>
  C4.  When an image is set in state \<open>s\<close>, loading the object \<open>getImageData\<close> returns
  for \<open>s\<close>, into \<open>s\<close> itself or into any later state \<open>s'\<close>, stores the image data and
  the media type of \<open>s\<close>.
\<close>

theorem load_export_roundtrip:
  "hasImage s \<Longrightarrow>
   profileImageData (loadImageFromData (getImageData s) s') = profileImageData s \<and>
   profileImageType (loadImageFromData (getImageData s) s') = profileImageType s"
  by (simp add: loadImageFromData_def hasImage_def)

theorem load_export_roundtrip_witness:
  "hasImage example_state \<and> \<not> absent (profileImageType example_state) \<and>
   profileImageData (loadImageFromData (getImageData example_state) example_state)
     = Str example_data_uri \<and>
   profileImageType (loadImageFromData (getImageData example_state) example_state)
     = Str ''image/png'' \<and>
   profileImageData (loadImageFromData (getImageData example_state)
       (removeProfileImage example_state)) = Str example_data_uri \<and>
   profileImageType (loadImageFromData (getImageData example_state)
       (removeProfileImage example_state)) = Str ''image/png''"
  using load_export_roundtrip [of example_state example_state]
        load_export_roundtrip [of example_state "removeProfileImage example_state"]
        example_state_hasImage
  by (simp add: example_state_fields absent_def)

text \<open>
  C10.  Whether an image is set is the truthiness of the image data.  With the empty
  string stored, \<open>hasImage\<close> is false, \<open>addImageToPDF\<close> returns width 0, height 0 and
  \<open>hasImage\<close> false and leaves the renderer as passed, and \<open>getImageBottomPosition\<close> is 0.
  A saved object whose \<open>profileImage\<close> is the empty string takes the clearing branch of
  \<open>loadImageFromData\<close> (the data stored afterwards is \<open>null\<close>), and the same three
  results hold after it.
\<close>

theorem presence_is_truthiness:
  "(hasImage s \<longleftrightarrow> truthy (profileImageData s)) \<and>
   (profileImageData s = Str [] \<longrightarrow>
      \<not> hasImage s \<and>
      addImageToPDF doc marginLeft y s
        = (Inr \<lparr>res_width = 0, res_height = 0, res_hasImage = False\<rparr>, doc, s) \<and>
      getImageBottomPosition headerStartY imageHeight padding s = 0) \<and>
   (get_prop obj ''profileImage'' = Str [] \<longrightarrow>
      loadImageFromData obj s = removeProfileImage s \<and>
      profileImageData (loadImageFromData obj s) = Null \<and>
      \<not> hasImage (loadImageFromData obj s) \<and>
      addImageToPDF doc marginLeft y (loadImageFromData obj s)
        = (Inr \<lparr>res_width = 0, res_height = 0, res_hasImage = False\<rparr>, doc,
           loadImageFromData obj s) \<and>
      getImageBottomPosition headerStartY imageHeight padding (loadImageFromData obj s) = 0)"
  by (simp add: hasImage_def addImageToPDF_def getImageBottomPosition_def loadImageFromData_def)

theorem presence_is_truthiness_witness:
  "profileImageData (example_state\<lparr>profileImageData := Str []\<rparr>) = Str [] \<and>
   \<not> absent (profileImageData (example_state\<lparr>profileImageData := Str []\<rparr>)) \<and>
   \<not> hasImage (example_state\<lparr>profileImageData := Str []\<rparr>) \<and>
   fst (addImageToPDF quiet_renderer 10 100 (example_state\<lparr>profileImageData := Str []\<rparr>))
     = Inr \<lparr>res_width = 0, res_height = 0, res_hasImage = False\<rparr> \<and>
   addImage_calls (fst (snd
       (addImageToPDF quiet_renderer 10 100 (example_state\<lparr>profileImageData := Str []\<rparr>)))) = [] \<and>
   getImageBottomPosition 100 70 5 (example_state\<lparr>profileImageData := Str []\<rparr>) = 0 \<and>
   get_prop [''profileImage'' \<mapsto> Str [], ''profileImageType'' \<mapsto> Str ''image/png'']
     ''profileImage'' = Str [] \<and>
   hasImage example_state \<and>
   \<not> hasImage (loadImageFromData
       [''profileImage'' \<mapsto> Str [], ''profileImageType'' \<mapsto> Str ''image/png''] example_state) \<and>
   getImageBottomPosition 100 70 5 (loadImageFromData
       [''profileImage'' \<mapsto> Str [], ''profileImageType'' \<mapsto> Str ''image/png''] example_state) = 0"
  using presence_is_truthiness
          [of "example_state\<lparr>profileImageData := Str []\<rparr>" quiet_renderer 10 100 100 70 5
              "[''profileImage'' \<mapsto> Str [], ''profileImageType'' \<mapsto> Str ''image/png'']"]
        presence_is_truthiness
          [of example_state quiet_renderer 10 100 100 70 5
              "[''profileImage'' \<mapsto> Str [], ''profileImageType'' \<mapsto> Str ''image/png'']"]
        example_state_hasImage
  by (simp add: get_prop_def absent_def quiet_renderer_def hasImage_def getImageBottomPosition_def)

subsection \<open>Layout: the bottom position\<close>

text \<open>
  C6.  \<open>getImageBottomPosition headerStartY imageHeight padding\<close> is 0 whenever no image
  is set, whatever the arguments, and \<open>(headerStartY - 30) + imageHeight + padding\<close>
  whenever an image is set, so 145 for the arguments 100, 70 and 5.  It returns a number
  and no state, and the number depends on the state only through \<open>hasImage\<close>.
\<close>

theorem getImageBottomPosition_spec:
  "(\<not> hasImage s \<longrightarrow> getImageBottomPosition headerStartY imageHeight padding s = 0) \<and>
   (hasImage s \<longrightarrow>
      getImageBottomPosition headerStartY imageHeight padding s
        = (headerStartY - 30) + imageHeight + padding) \<and>
   (hasImage s \<longrightarrow> getImageBottomPosition 100 70 5 s = 145) \<and>
   (hasImage s' = hasImage s \<longrightarrow>
      getImageBottomPosition headerStartY imageHeight padding s'
        = getImageBottomPosition headerStartY imageHeight padding s)"
  by (simp add: getImageBottomPosition_def hasImage_def)

theorem getImageBottomPosition_spec_witness:
  "hasImage example_state \<and> \<not> hasImage (init_state example_page True) \<and>
   getImageBottomPosition 100 70 5 example_state = 145 \<and>
   getImageBottomPosition 100 70 5 (init_state example_page True) = 0 \<and>
   getImageBottomPosition 100 70 5 (removeProfileImage (init_state example_page True)) = 0"
  using getImageBottomPosition_spec [of example_state 100 70 5 example_state]
        getImageBottomPosition_spec [of "init_state example_page True" 100 70 5
           "removeProfileImage (init_state example_page True)"]
        example_state_hasImage
  by (simp add: hasImage_def init_state_def)

subsection \<open>Embedding into the PDF\<close>

text \<open>
  C7.  In a state with no image set, \<open>addImageToPDF\<close> returns width 0, height 0 and
  \<open>hasImage\<close> false; the renderer is the one passed in, so it has received no call, and
  the state is as before.
\<close>

theorem addImageToPDF_no_image:
  "\<not> hasImage s \<Longrightarrow>
   addImageToPDF doc marginLeft y s
     = (Inr \<lparr>res_width = 0, res_height = 0, res_hasImage = False\<rparr>, doc, s)"
  by (simp add: addImageToPDF_def hasImage_def)

theorem addImageToPDF_no_image_witness:
  "\<not> hasImage (init_state example_page True) \<and>
   addImageToPDF quiet_renderer 10 100 (init_state example_page True)
     = (Inr \<lparr>res_width = 0, res_height = 0, res_hasImage = False\<rparr>,
        quiet_renderer, init_state example_page True) \<and>
   addImage_calls (fst (snd (addImageToPDF quiet_renderer 10 100 (init_state example_page True)))) = []"
  using addImageToPDF_no_image [of "init_state example_page True" quiet_renderer 10 100]
  by (simp add: hasImage_def init_state_def quiet_renderer_def)

text \<open>
  C2.  In a state with an image set, \<open>addImageToPDF doc marginLeft y\<close> returns width 70,
  height 70 and \<open>hasImage\<close> true, and the renderer has received exactly one more call:
  the stored image data at \<open>(marginLeft, y - 28)\<close> with width 70 and height 70.  The
  format passed is the stored media type when one is stored, and \<open>JPEG\<close> otherwise; the
  fallback applies when the media type is \<open>null\<close> or \<open>undefined\<close>, and also when it is
  the empty string, which names no media type.  For the arguments 10 and 100 the call
  is at \<open>(10, 72)\<close>.
\<close>

theorem addImageToPDF_places_image:
  "hasImage s \<Longrightarrow>
   fst (addImageToPDF doc marginLeft y s)
     = Inr \<lparr>res_width = 70, res_height = 70, res_hasImage = True\<rparr> \<and>
   addImage_calls (fst (snd (addImageToPDF doc marginLeft y s)))
     = addImage_calls doc @
       [\<lparr>call_image = profileImageData s,
         call_format = (if absent (profileImageType s) \<or> profileImageType s = Str []
                        then Str ''JPEG'' else profileImageType s),
         call_x = marginLeft, call_y = y - 28, call_width = 70, call_height = 70\<rparr>]"
  by (cases "profileImageType s")
     (simp_all add: addImageToPDF_def hasImage_def addImage_def Let_def js_or_def absent_def
        split: prod.splits)

theorem addImageToPDF_places_image_witness:
  "hasImage example_state \<and>
   fst (addImageToPDF quiet_renderer 10 100 example_state)
     = Inr \<lparr>res_width = 70, res_height = 70, res_hasImage = True\<rparr> \<and>
   addImage_calls (fst (snd (addImageToPDF quiet_renderer 10 100 example_state)))
     = [\<lparr>call_image = Str example_data_uri, call_format = Str ''image/png'',
         call_x = 10, call_y = 72, call_width = 70, call_height = 70\<rparr>] \<and>
   hasImage (loadImageFromData saved_without_type example_state) \<and>
   addImage_calls (fst (snd (addImageToPDF quiet_renderer 10 100
       (loadImageFromData saved_without_type example_state))))
     = [\<lparr>call_image = Str example_data_uri, call_format = Str ''JPEG'',
         call_x = 10, call_y = 72, call_width = 70, call_height = 70\<rparr>]"
  using addImageToPDF_places_image [of example_state quiet_renderer 10 100]
        addImageToPDF_places_image
          [of "loadImageFromData saved_without_type example_state" quiet_renderer 10 100]
        example_state_hasImage
  by (simp add: example_state_fields absent_def quiet_renderer_def hasImage_def
        loadImageFromData_def saved_without_type_def get_prop_def example_data_uri_def)

text \<open>
  C5.  In a state with an image set, when the renderer throws on the call it is given,
  \<open>addImageToPDF\<close> still returns an object (\<open>Inr\<close>, nothing is thrown to the caller), with
  width 70, height 70 and \<open>hasImage\<close> true; the value thrown is written to the console
  with the message of the source, no alert is shown, and the image stays as it was.
\<close>

theorem addImageToPDF_renderer_throws:
  "hasImage s \<Longrightarrow>
   addImage_throws doc
     \<lparr>call_image = profileImageData s,
      call_format = js_or (profileImageType s) (Str ''JPEG''),
      call_x = marginLeft, call_y = y - 28, call_width = 70, call_height = 70\<rparr> = Some err \<Longrightarrow>
   fst (addImageToPDF doc marginLeft y s)
     = Inr \<lparr>res_width = 70, res_height = 70, res_hasImage = True\<rparr> \<and>
   console_errors (snd (snd (addImageToPDF doc marginLeft y s)))
     = console_errors s @ [(''Error adding image to PDF:'', err)] \<and>
   alerts (snd (snd (addImageToPDF doc marginLeft y s))) = alerts s \<and>
   profileImageData (snd (snd (addImageToPDF doc marginLeft y s))) = profileImageData s \<and>
   profileImageType (snd (snd (addImageToPDF doc marginLeft y s))) = profileImageType s"
  by (simp add: addImageToPDF_def hasImage_def addImage_def Let_def)

theorem addImageToPDF_renderer_throws_witness:
  "hasImage example_state \<and>
   fst (addImageToPDF failing_renderer 10 100 example_state)
     = Inr \<lparr>res_width = 70, res_height = 70, res_hasImage = True\<rparr> \<and>
   console_errors (snd (snd (addImageToPDF failing_renderer 10 100 example_state)))
     = [(''Error adding image to PDF:'', ''Error: unsupported image'')]"
  using addImageToPDF_renderer_throws [of example_state failing_renderer 10 100
          "''Error: unsupported image''"] example_state_hasImage
  by (simp add: failing_renderer_def example_state_def reader_onload_def init_state_def)

subsection \<open>The pairing of image data and media type\<close>

text \<open>
  C1.  The image data is absent exactly when the media type is absent:
  in the initial state, after every completed upload and after every removal; the
  checks of \<open>handleImageUpload\<close> and \<open>addImageToPDF\<close> keep the pairing when it held
  before (\<open>getImageBottomPosition\<close>, \<open>getImageData\<close> and the accessors return no state).
  After \<open>loadImageFromData\<close> the pairing holds exactly when the saved object's
  \<open>profileImage\<close> is falsy (missing, \<open>null\<close> or empty) or its \<open>profileImageType\<close> is
  neither missing nor \<open>null\<close>.
\<close>

theorem pairing_after_operations:
  "pairing (init_state page au) \<and>
   pairing (reader_onload f result s) \<and>
   pairing (removeProfileImage s) \<and>
   (pairing s \<longrightarrow> pairing (fst (handleImageUpload files s))) \<and>
   (pairing s \<longrightarrow> pairing (snd (snd (addImageToPDF doc marginLeft y s)))) \<and>
   (pairing (loadImageFromData obj s) \<longleftrightarrow>
      (truthy (get_prop obj ''profileImage'') \<longrightarrow> \<not> absent (get_prop obj ''profileImageType'')))"
proof -
  have 1: "pairing (init_state page au)"
    by (simp add: pairing_def init_state_def)
  have 2: "pairing (reader_onload f result s)"
    by (simp add: pairing_def reader_onload_def absent_def)
  have 3: "pairing (removeProfileImage s)"
    by (simp add: pairing_def)
  have 4: "pairing s \<longrightarrow> pairing (fst (handleImageUpload files s))"
    by (simp add: pairing_def handleImageUpload_def alert_def split: list.splits)
  have 5: "pairing s \<longrightarrow> pairing (snd (snd (addImageToPDF doc marginLeft y s)))"
    by (simp add: pairing_def addImageToPDF_def addImage_def Let_def split: option.splits)
  have 6: "pairing (loadImageFromData obj s) \<longleftrightarrow>
      (truthy (get_prop obj ''profileImage'') \<longrightarrow> \<not> absent (get_prop obj ''profileImageType''))"
    by (cases "get_prop obj ''profileImage''")
       (auto simp add: pairing_def loadImageFromData_def absent_def)
  from 1 2 3 4 5 6 show ?thesis by blast
qed

theorem pairing_after_operations_witness:
  "pairing example_state \<and>
   pairing (fst (handleImageUpload [example_file] example_state)) \<and>
   pairing (snd (snd (addImageToPDF quiet_renderer 10 100 example_state))) \<and>
   truthy (get_prop (getImageData example_state) ''profileImage'') \<and>
   \<not> absent (get_prop (getImageData example_state) ''profileImageType'') \<and>
   pairing (loadImageFromData (getImageData example_state) (removeProfileImage example_state)) \<and>
   truthy (get_prop saved_without_type ''profileImage'') \<and>
   absent (get_prop saved_without_type ''profileImageType'') \<and>
   \<not> pairing (loadImageFromData saved_without_type (removeProfileImage example_state))"
proof -
  have start: "pairing example_state"
    using pairing_after_operations
            [of example_page True example_file example_data_uri "init_state example_page True"
                "[example_file]" quiet_renderer 10 100 "getImageData example_state"]
    by (simp add: example_state_def)
  note step = pairing_after_operations
            [of example_page True example_file example_data_uri example_state
                "[example_file]" quiet_renderer 10 100 "getImageData example_state"]
  note load_saved = pairing_after_operations
            [of example_page True example_file example_data_uri "removeProfileImage example_state"
                "[example_file]" quiet_renderer 10 100 "getImageData example_state"]
  note load_untyped = pairing_after_operations
            [of example_page True example_file example_data_uri "removeProfileImage example_state"
                "[example_file]" quiet_renderer 10 100 saved_without_type]
  have t: "truthy (get_prop (getImageData example_state) ''profileImage'')"
    by (simp add: example_state_fields example_data_uri_def)
  have n: "\<not> absent (get_prop (getImageData example_state) ''profileImageType'')"
    by (simp add: example_state_fields absent_def)
  have t': "truthy (get_prop saved_without_type ''profileImage'')"
    by (simp add: saved_without_type_def get_prop_def example_data_uri_def)
  have n': "absent (get_prop saved_without_type ''profileImageType'')"
    by (simp add: saved_without_type_def get_prop_def absent_def)
  from start step load_saved load_untyped t n t' n' show ?thesis
    by blast
qed

text \<open>
  C1 read for every saved object fails: a saved object with a \<open>profileImage\<close> and
  no \<open>profileImageType\<close> key leaves the image data set and the media type \<open>undefined\<close>.
\<close>

theorem pairing_load_counterexample:
  "profileImageData (loadImageFromData saved_without_type (init_state example_page True))
     = Str example_data_uri \<and>
   profileImageType (loadImageFromData saved_without_type (init_state example_page True))
     = Undefined \<and>
   \<not> pairing (loadImageFromData saved_without_type (init_state example_page True))"
  by (simp add: pairing_def loadImageFromData_def saved_without_type_def get_prop_def
        absent_def example_data_uri_def)

end
